theory Spec2Isabelle
  imports Complex_Main "HOL-Library.Stream"
begin

section \<open>The MarsRover environment of rl\_exercises/environments.py\<close>

text \<open>
  The class \<open>MarsRover\<close> is a one-dimensional Markov decision process. Python integers
  are \<open>int\<close>; the floating-point probabilities and rewards are only stored, compared with
  \<open><\<close> and looked up, so they are idealised as \<open>real\<close>. The numpy generator owned by an
  engine is the stream of the values its \<open>random()\<close> will return. An exception is a value
  of \<open>error\<close>, and a method that mutates the object returns the object as the exception
  (or the return) leaves it.
\<close>

subsection \<open>Indexing Python lists and numpy arrays\<close>

datatype error = IndexError | RuntimeError int | AssertionError | ValueError

text \<open>
  An index \<open>i\<close> into a sequence of length \<open>n\<close>: \<open>0 \<le> i < n\<close> addresses from the front,
  \<open>-n \<le> i < 0\<close> from the back, everything else raises IndexError.
\<close>

definition norm_index :: "nat \<Rightarrow> int \<Rightarrow> nat option" where
  "norm_index n i =
     (if 0 \<le> i \<and> i < int n then Some (nat i)
      else if i < 0 \<and> - int n \<le> i then Some (nat (i + int n))
      else None)"

definition getitem :: "'a list \<Rightarrow> int \<Rightarrow> 'a option" where
  "getitem xs i = map_option (\<lambda>k. xs ! k) (norm_index (length xs) i)"

text \<open>\<open>M[i][j]\<close> and \<open>M[i, j]\<close> on a two-dimensional array stored as a list of rows.\<close>

definition getitem2 :: "'a list list \<Rightarrow> int \<Rightarrow> int \<Rightarrow> 'a option" where
  "getitem2 M i j = (case getitem M i of None \<Rightarrow> None | Some row \<Rightarrow> getitem row j)"

text \<open>\<open>T[i, j, k] = v\<close> on a three-dimensional array.\<close>

definition setitem3 ::
  "'a list list list \<Rightarrow> int \<Rightarrow> int \<Rightarrow> int \<Rightarrow> 'a \<Rightarrow> 'a list list list option" where
  "setitem3 T i j k v =
     (case norm_index (length T) i of
        None \<Rightarrow> None
      | Some i' \<Rightarrow>
          (case norm_index (length (T ! i')) j of
             None \<Rightarrow> None
           | Some j' \<Rightarrow>
               (case norm_index (length (T ! i' ! j')) k of
                  None \<Rightarrow> None
                | Some k' \<Rightarrow> Some (T[i' := (T ! i')[j' := (T ! i' ! j')[k' := v]]]))))"

definition arange :: "nat \<Rightarrow> nat \<Rightarrow> int list" where
  "arange lo hi = map int [lo..<hi]"

definition zeros3 :: "nat \<Rightarrow> nat \<Rightarrow> nat \<Rightarrow> real list list list" where
  "zeros3 a b c = replicate a (replicate b (replicate c 0))"

subsection \<open>The engine\<close>

text \<open>
  The fields of a \<open>MarsRover\<close> object. \<open>observation_space\<close> and \<open>action_space\<close> are
  gymnasium objects that no method of the class reads; they are left out.
\<close>

record MarsRover =
  rewards :: "real list"
  transition_probabilities :: "real list list"
  current_steps :: int
  horizon :: int
  position :: int
  states :: "int list"
  actions :: "int list"
  transition_matrix :: "real list list list"
  rng :: "real stream"

type_synonym info = "(string \<times> string) list"

type_synonym step_result = "int \<times> real \<times> bool \<times> bool \<times> info"

subsection \<open>The deterministic movement rule and the transition matrix\<close>

definition get_next_state :: "int \<Rightarrow> int \<Rightarrow> int list \<Rightarrow> int" where
  "get_next_state s a S =
     (let delta_s = (if a = 0 then - 1 else 1);
          s_next = s + delta_s
      in max (min s_next (int (length S) - 1)) 0)"

text \<open>The body of \<open>for a in A\<close> and of \<open>for s in S\<close> in \<open>get_transition_matrix\<close>.\<close>

fun fill_actions ::
  "int list \<Rightarrow> real list list \<Rightarrow> int \<Rightarrow> int list \<Rightarrow> real list list list
     \<Rightarrow> error + real list list list" where
  "fill_actions S P s [] T = Inr T"
| "fill_actions S P s (a # as) T =
     (let s_next = get_next_state s a S in
      case getitem2 P s a of
        None \<Rightarrow> Inl IndexError
      | Some probability \<Rightarrow>
          (case setitem3 T s a s_next probability of
             None \<Rightarrow> Inl IndexError
           | Some T' \<Rightarrow> fill_actions S P s as T'))"

fun fill_states ::
  "int list \<Rightarrow> int list \<Rightarrow> real list list \<Rightarrow> int list \<Rightarrow> real list list list
     \<Rightarrow> error + real list list list" where
  "fill_states S A P [] T = Inr T"
| "fill_states S A P (s # ss) T =
     (case fill_actions S P s A T of
        Inl err \<Rightarrow> Inl err
      | Inr T' \<Rightarrow> fill_states S A P ss T')"

definition get_transition_matrix ::
  "int list \<Rightarrow> int list \<Rightarrow> real list list \<Rightarrow> error + real list list list" where
  "get_transition_matrix S A P =
     fill_states S A P S (zeros3 (length S) (length A) (length S))"

subsection \<open>Construction, reset and step\<close>

text \<open>
  \<open>default_rng\<close> stands for \<open>numpy.random.default_rng\<close>, which is not part of the
  repository: it maps the seed to the stream of draws of the new generator, or to the
  exception it raises for a seed it rejects. \<open>gymnasium.spaces.Discrete(n=n)\<close>, not
  part of the repository either, asserts that \<open>n\<close> is positive. The constructor runs
  the observation space, the transition matrix and the generator in this order, and
  the first exception ends it.
\<close>

definition MarsRover_init ::
  "(int option \<Rightarrow> error + real stream) \<Rightarrow> real list list \<Rightarrow> real list \<Rightarrow> int \<Rightarrow> int option
     \<Rightarrow> error + MarsRover" where
  "MarsRover_init default_rng P R h seed =
     (let n = length P in
      if n = 0 then Inl AssertionError
      else
        (let S = arange 0 n;
             A = arange 0 2
         in case get_transition_matrix S A P of
              Inl err \<Rightarrow> Inl err
            | Inr T \<Rightarrow>
                (case default_rng seed of
                   Inl err \<Rightarrow> Inl err
                 | Inr g \<Rightarrow>
                     Inr \<lparr>rewards = R, transition_probabilities = P, current_steps = 0,
                          horizon = h, position = 2, states = S, actions = A,
                          transition_matrix = T, rng = g\<rparr>)))"

definition reset :: "MarsRover \<Rightarrow> int option \<Rightarrow> info option \<Rightarrow> (int \<times> info) \<times> MarsRover" where
  "reset e seed options =
     (let e1 = e\<lparr>current_steps := 0\<rparr>;
          e2 = e1\<lparr>position := 2\<rparr>;
          observation = position e2;
          info = []
      in ((observation, info), e2))"

text \<open>The tail of \<open>step\<close> after the move: reward lookup, flags and the returned tuple.\<close>

definition step_return :: "MarsRover \<Rightarrow> (error + step_result) \<times> MarsRover" where
  "step_return e =
     (case getitem (rewards e) (position e) of
        None \<Rightarrow> (Inl IndexError, e)
      | Some reward \<Rightarrow>
          (let terminated = False;
               truncated = (horizon e \<le> current_steps e)
           in (Inr (position e, reward, terminated, truncated, []), e)))"

definition step :: "MarsRover \<Rightarrow> int \<Rightarrow> (error + step_result) \<times> MarsRover" where
  "step e0 requested =
     (let e1 = e0\<lparr>current_steps := current_steps e0 + 1\<rparr>;
          u = shd (rng e1);
          e = e1\<lparr>rng := stl (rng e1)\<rparr>
      in case getitem2 (transition_probabilities e) (position e) requested of
           None \<Rightarrow> (Inl IndexError, e)
         | Some p \<Rightarrow>
             (let follow_action = (u < p);
                  action = (if \<not> follow_action then 1 - requested else requested)
              in if action = 0 then
                   step_return (if 0 < position e then e\<lparr>position := position e - 1\<rparr> else e)
                 else if action = 1 then
                   step_return (if position e < 4 then e\<lparr>position := position e + 1\<rparr> else e)
                 else (Inl (RuntimeError action), e)))"

text \<open>
  A caller's loop over a list of actions: the results of the calls in order, up to and
  including the first exception, and the engine as the last call leaves it.
\<close>

fun run_steps :: "MarsRover \<Rightarrow> int list \<Rightarrow> (error + step_result) list \<times> MarsRover" where
  "run_steps e [] = ([], e)"
| "run_steps e (a # as) =
     (case step e a of
        (Inl err, e') \<Rightarrow> ([Inl err], e')
      | (Inr r, e') \<Rightarrow> (let (rs, e'') = run_steps e' as in (Inr r # rs, e'')))"

subsection \<open>Auxiliary notions for the properties\<close>

text \<open>
  An engine on which every call of \<open>step\<close> with a valid action returns: the probability
  table has at least five rows of two entries, the reward table is as long, and the
  position is a row of the table.
\<close>

definition wf_engine :: "MarsRover \<Rightarrow> bool" where
  "wf_engine e \<longleftrightarrow>
     5 \<le> length (transition_probabilities e)
     \<and> length (rewards e) = length (transition_probabilities e)
     \<and> list_all (\<lambda>row. length row = 2) (transition_probabilities e)
     \<and> 0 \<le> position e
     \<and> position e < int (length (transition_probabilities e))"

text \<open>\<open>T[s, a].sum()\<close>: the sum over the successor states of one row of the tensor.\<close>

definition row_sum :: "real list list list \<Rightarrow> int \<Rightarrow> int \<Rightarrow> real option" where
  "row_sum T s a = map_option sum_list (getitem2 T s a)"

subsection \<open>Concrete engines\<close>

text \<open>
  \<open>np.ones((n, 2))\<close>, a table with every probability one half, and a generator whose
  draws are all one half (a negative seed is rejected, as numpy does).
\<close>

definition ones :: "nat \<Rightarrow> real list list" where
  "ones n = replicate n [1, 1]"

definition halves :: "nat \<Rightarrow> real list list" where
  "halves n = replicate n [1 / 2, 1 / 2]"

definition fixed_rng :: "int option \<Rightarrow> error + real stream" where
  "fixed_rng seed =
     (case seed of
        None \<Rightarrow> Inr (sconst (1 / 2))
      | Some k \<Rightarrow> if k < 0 then Inl ValueError else Inr (sconst (1 / 2)))"

text \<open>The engines that the constructor builds from the default arguments, and for three and six states.\<close>

definition rover5 :: MarsRover where
  "rover5 =
     \<lparr>rewards = [1, 0, 0, 0, 10], transition_probabilities = ones 5, current_steps = 0,
      horizon = 10, position = 2, states = [0, 1, 2, 3, 4], actions = [0, 1],
      transition_matrix =
        [[[1, 0, 0, 0, 0], [0, 1, 0, 0, 0]],
         [[1, 0, 0, 0, 0], [0, 0, 1, 0, 0]],
         [[0, 1, 0, 0, 0], [0, 0, 0, 1, 0]],
         [[0, 0, 1, 0, 0], [0, 0, 0, 0, 1]],
         [[0, 0, 0, 1, 0], [0, 0, 0, 0, 1]]],
      rng = sconst (1 / 2)\<rparr>"

definition rover3 :: MarsRover where
  "rover3 =
     \<lparr>rewards = [1, 0, 10], transition_probabilities = ones 3, current_steps = 0,
      horizon = 10, position = 2, states = [0, 1, 2], actions = [0, 1],
      transition_matrix =
        [[[1, 0, 0], [0, 1, 0]],
         [[1, 0, 0], [0, 0, 1]],
         [[0, 1, 0], [0, 0, 1]]],
      rng = sconst (1 / 2)\<rparr>"

definition rover6 :: MarsRover where
  "rover6 =
     \<lparr>rewards = [1, 0, 0, 0, 0, 10], transition_probabilities = ones 6, current_steps = 0,
      horizon = 10, position = 2, states = [0, 1, 2, 3, 4, 5], actions = [0, 1],
      transition_matrix =
        [[[1, 0, 0, 0, 0, 0], [0, 1, 0, 0, 0, 0]],
         [[1, 0, 0, 0, 0, 0], [0, 0, 1, 0, 0, 0]],
         [[0, 1, 0, 0, 0, 0], [0, 0, 0, 1, 0, 0]],
         [[0, 0, 1, 0, 0, 0], [0, 0, 0, 0, 1, 0]],
         [[0, 0, 0, 1, 0, 0], [0, 0, 0, 0, 0, 1]],
         [[0, 0, 0, 0, 1, 0], [0, 0, 0, 0, 0, 1]]],
      rng = sconst (1 / 2)\<rparr>"

text \<open>Ten valid actions, as many as the default horizon.\<close>

definition walk10 :: "int list" where
  "walk10 = [1, 0, 1, 1, 0, 1, 1, 1, 0, 1]"

section \<open>Properties\<close>

subsection \<open>Indexing\<close>

lemma getitem_in_range:
  "0 \<le> i \<Longrightarrow> i < int (length xs) \<Longrightarrow> getitem xs i = Some (xs ! nat i)"
  by (simp add: getitem_def norm_index_def)

lemma getitem_too_large:
  "int (length xs) \<le> i \<Longrightarrow> getitem xs i = None"
  by (simp add: getitem_def norm_index_def)

lemma getitem_Some_mem: "getitem xs i = Some x \<Longrightarrow> x \<in> set xs"
  by (auto simp: getitem_def norm_index_def split: if_splits)

lemma getitem2_col_too_large:
  assumes "list_all (\<lambda>row. length row = 2) M" and "2 \<le> j"
  shows "getitem2 M i j = None"
proof (cases "getitem M i")
  case None
  then show ?thesis by (simp add: getitem2_def)
next
  case (Some row)
  then have "row \<in> set M" by (rule getitem_Some_mem)
  with assms(1) have "length row = 2" by (simp add: list_all_iff)
  with assms(2) have "getitem row j = None" by (simp add: getitem_too_large)
  with Some show ?thesis by (simp add: getitem2_def)
qed

subsection \<open>The concrete engines are what the constructor builds\<close>

lemmas eval_defs =
  MarsRover_init_def get_transition_matrix_def arange_def zeros3_def getitem2_def
  getitem_def norm_index_def setitem3_def get_next_state_def ones_def halves_def fixed_rng_def
  upt_rec numeral_eq_Suc

lemmas step_eval =
  step_def step_return_def getitem2_def getitem_def norm_index_def ones_def Let_def

lemma init_rover5: "MarsRover_init fixed_rng (ones 5) [1, 0, 0, 0, 10] 10 (Some 0) = Inr rover5"
  by (simp add: eval_defs rover5_def)

lemma init_rover3: "MarsRover_init fixed_rng (ones 3) [1, 0, 10] 10 (Some 0) = Inr rover3"
  by (simp add: eval_defs rover3_def)

lemma init_rover6: "MarsRover_init fixed_rng (ones 6) [1, 0, 0, 0, 0, 10] 10 (Some 0) = Inr rover6"
  by (simp add: eval_defs rover6_def)

subsection \<open>The movement rule at the boundaries\<close>


text \<open>
  C9. In a state space of size \<open>n \<ge> 1\<close> the deterministic movement rule
  \<open>get_next_state\<close> maps state 0 under action 0 to 0 and state \<open>n - 1\<close> under action 1
  to \<open>n - 1\<close>.
\<close>

theorem get_next_state_boundaries:
  assumes "S \<noteq> []"
  shows "get_next_state 0 0 S = 0
       \<and> get_next_state (int (length S) - 1) 1 S = int (length S) - 1"
proof -
  from assms have "1 \<le> int (length S)"
    by (cases S) simp_all
  then show ?thesis
    by (simp add: get_next_state_def)
qed

theorem get_next_state_boundaries_witness:
  "arange 0 5 \<noteq> []
   \<and> get_next_state 0 0 (arange 0 5) = 0
   \<and> get_next_state (int (length (arange 0 5)) - 1) 1 (arange 0 5) = 4"
proof -
  have ne: "arange 0 5 \<noteq> []"
    by (simp add: arange_def)
  have len: "int (length (arange 0 5)) - 1 = 4"
    by (simp add: arange_def)
  from get_next_state_boundaries [OF ne] ne len show ?thesis
    by simp
qed

subsection \<open>reset\<close>

text \<open>
  C7. From every engine state and for every \<open>seed\<close> and \<open>options\<close>, \<open>reset\<close> sets
  \<open>current_steps\<close> to 0 and \<open>position\<close> to 2, changes nothing else (the generator is not
  reseeded), and returns the observation 2 with an empty info mapping; the result does
  not depend on \<open>seed\<close> or \<open>options\<close>.
\<close>

theorem reset_result:
  "reset e seed options = ((2, []), e\<lparr>current_steps := 0, position := 2\<rparr>)
   \<and> reset e seed options = reset e seed' options'"
  by (simp add: reset_def)

subsection \<open>step with an action outside 0 and 1\<close>

text \<open>
  C10. When the probability table has two columns, \<open>step\<close> with an action \<open>a \<ge> 2\<close> raises
  IndexError at the lookup \<open>transition_probabilities[position][a]\<close>: the branch that raises
  the invalid-action RuntimeError is not reached, and the engine is left with
  \<open>current_steps\<close> incremented and one draw of the generator consumed.
\<close>

theorem step_action_ge_2:
  assumes "list_all (\<lambda>row. length row = 2) (transition_probabilities e)" and "2 \<le> a"
  shows "step e a
         = (Inl IndexError, e\<lparr>current_steps := current_steps e + 1, rng := stl (rng e)\<rparr>)"
  using getitem2_col_too_large [OF assms]
  by (simp add: step_def)

theorem step_action_ge_2_witness:
  "list_all (\<lambda>row. length row = 2) (transition_probabilities rover5)
   \<and> (2 :: int) \<le> 7
   \<and> step rover5 7 = (Inl IndexError, rover5\<lparr>current_steps := 1\<rparr>)"
proof -
  have rows: "list_all (\<lambda>row. length row = 2) (transition_probabilities rover5)"
    by (simp add: rover5_def ones_def list_all_iff)
  have ge: "(2 :: int) \<le> 7"
    by simp
  from step_action_ge_2 [OF rows ge] rows show ?thesis
    by (simp add: rover5_def)
qed

text \<open>
  C2, as stated, fails: on the default engine \<open>step(2)\<close> raises IndexError and not the
  invalid-action RuntimeError, \<open>step(-1)\<close> raises the RuntimeError, and both leave
  \<open>current_steps\<close> at 1 instead of 0.
\<close>

theorem step_invalid_action_mutates:
  "step rover5 2 = (Inl IndexError, rover5\<lparr>current_steps := 1\<rparr>)
   \<and> step rover5 (- 1) = (Inl (RuntimeError (- 1)), rover5\<lparr>current_steps := 1\<rparr>)
   \<and> current_steps (rover5\<lparr>current_steps := 1\<rparr>) \<noteq> current_steps rover5"
proof (intro conjI)
  show "step rover5 2 = (Inl IndexError, rover5\<lparr>current_steps := 1\<rparr>)"
    by (simp add: rover5_def step_eval)
  show "step rover5 (- 1) = (Inl (RuntimeError (- 1)), rover5\<lparr>current_steps := 1\<rparr>)"
    by (simp add: rover5_def step_eval)
  show "current_steps (rover5\<lparr>current_steps := 1\<rparr>) \<noteq> current_steps rover5"
    by (simp add: rover5_def)
qed

text \<open>
  C2, amended. For every engine state and every action other than 0 and 1 for which the
  lookup \<open>transition_probabilities[position][action]\<close> succeeds (on a table with two
  columns these are the actions -1 and -2, which index a row from its end), \<open>step\<close>
  raises the invalid-action RuntimeError, carrying the action as the draw left or
  flipped it, and leaves the position and every other field as before the call, except
  that \<open>current_steps\<close> has been incremented and one draw of the generator consumed.
  Nothing is said about the actions for which the lookup itself raises.
\<close>

theorem step_invalid_action_fails:
  assumes "a \<noteq> 0" and "a \<noteq> 1"
    and "getitem2 (transition_probabilities e) (position e) a = Some p"
  shows "step e a
         = (Inl (RuntimeError (if shd (rng e) < p then a else 1 - a)),
            e\<lparr>current_steps := current_steps e + 1, rng := stl (rng e)\<rparr>)"
  using assms by (auto simp: step_def Let_def)

theorem step_invalid_action_fails_witness:
  "(- 2 :: int) \<noteq> 0 \<and> (- 2 :: int) \<noteq> 1
   \<and> getitem2 (transition_probabilities rover5) (position rover5) (- 2) = Some 1
   \<and> step rover5 (- 2) = (Inl (RuntimeError (- 2)), rover5\<lparr>current_steps := 1\<rparr>)"
proof -
  have n0: "(- 2 :: int) \<noteq> 0" and n1: "(- 2 :: int) \<noteq> 1"
    by simp_all
  have lookup: "getitem2 (transition_probabilities rover5) (position rover5) (- 2) = Some 1"
    by (simp add: rover5_def ones_def getitem2_def getitem_def norm_index_def)
  from step_invalid_action_fails [OF n0 n1 lookup] lookup show ?thesis
    by (simp add: rover5_def)
qed

subsection \<open>The reward of a step\<close>

lemma step_return_cases:
  "step_return e = (Inr (observation, reward, terminated, truncated, nfo), e') \<Longrightarrow>
     e' = e \<and> observation = position e \<and> getitem (rewards e) (position e) = Some reward
     \<and> \<not> terminated \<and> truncated = (horizon e \<le> current_steps e) \<and> nfo = []"
  by (auto simp: step_return_def Let_def split: option.splits)

text \<open>
  C6. Whenever \<open>step\<close> returns, from any engine state, for any action and any draw, the
  observation is the position the engine has after the move, the reward table is the
  one it had before, and the reward is the entry of that table at the new position.
\<close>

theorem step_reward:
  assumes "step e a = (Inr (observation, reward, terminated, truncated, nfo), e')"
  shows "observation = position e' \<and> rewards e' = rewards e
       \<and> getitem (rewards e) (position e') = Some reward"
  using assms
  by (auto simp: step_def Let_def split: option.splits if_splits dest!: step_return_cases)

theorem step_reward_witness:
  "step rover5 1 = (Inr (3, 0, False, False, []), rover5\<lparr>current_steps := 1, position := 3\<rparr>)
   \<and> getitem (rewards rover5) 3 = Some 0"
proof -
  have st: "step rover5 1
            = (Inr (3, 0, False, False, []), rover5\<lparr>current_steps := 1, position := 3\<rparr>)"
    by (simp add: rover5_def step_eval)
  from step_reward [OF st] st show ?thesis
    by simp
qed

subsection \<open>The step counter and truncation\<close>

lemma step_counter: "current_steps (snd (step e a)) = current_steps e + 1"
  by (simp add: step_def step_return_def Let_def split: option.splits)

lemma step_horizon: "horizon (snd (step e a)) = horizon e"
  by (simp add: step_def step_return_def Let_def split: option.splits)

lemma step_flags:
  "(case fst (step e a) of
      Inl err \<Rightarrow> True
    | Inr (observation, reward, terminated, truncated, nfo) \<Rightarrow>
        \<not> terminated \<and> truncated = (horizon e \<le> current_steps e + 1))"
  by (simp add: step_def step_return_def Let_def split: option.splits)

lemma step_Inr_flags:
  assumes "step e a = (Inr (observation, reward, terminated, truncated, nfo), e')"
  shows "\<not> terminated \<and> truncated = (horizon e \<le> current_steps e + 1)"
  using step_flags [of e a] assms by simp

text \<open>Every call of a run, also one that raises, has advanced the counter by one.\<close>

lemma run_steps_counter:
  "current_steps (snd (run_steps e acts))
   = current_steps e + int (length (fst (run_steps e acts)))"
proof (induction acts arbitrary: e)
  case Nil
  show ?case by simp
next
  case (Cons a acts)
  obtain r e' where st: "step e a = (r, e')"
    by (cases "step e a")
  with step_counter [of e a] have cs: "current_steps e' = current_steps e + 1"
    by simp
  show ?case
  proof (cases r)
    case (Inl err)
    with st cs show ?thesis by simp
  next
    case (Inr res)
    with st cs Cons.IH [of e'] show ?thesis
      by (simp add: split_beta)
  qed
qed

text \<open>The flags of the call number \<open>k + 1\<close> of a run, when that call returns.\<close>

lemma run_steps_flags:
  assumes "k < length (fst (run_steps e acts))"
    and "fst (run_steps e acts) ! k = Inr (observation, reward, terminated, truncated, nfo)"
  shows "\<not> terminated \<and> truncated = (horizon e \<le> current_steps e + int k + 1)"
  using assms
proof (induction acts arbitrary: e k)
  case Nil
  then show ?case by simp
next
  case (Cons a acts)
  obtain r e' where st: "step e a = (r, e')"
    by (cases "step e a")
  from st step_counter [of e a] step_horizon [of e a]
  have cs: "current_steps e' = current_steps e + 1" and hz: "horizon e' = horizon e"
    by simp_all
  show ?case
  proof (cases r)
    case (Inl err)
    with st Cons.prems show ?thesis
      by simp
  next
    case (Inr res)
    show ?thesis
    proof (cases k)
      case 0
      with st Inr Cons.prems(2)
      have "step e a = (Inr (observation, reward, terminated, truncated, nfo), e')"
        by (simp add: split_beta)
      from step_Inr_flags [OF this] 0 show ?thesis
        by simp
    next
      case (Suc j)
      with st Inr Cons.prems
      have "j < length (fst (run_steps e' acts))"
        and "fst (run_steps e' acts) ! j
             = Inr (observation, reward, terminated, truncated, nfo)"
        by (simp_all add: split_beta)
      from Cons.IH [OF this] cs hz Suc show ?thesis
        by (simp add: add.commute add.left_commute)
    qed
  qed
qed

text \<open>
  C5. From every engine state and for every action, one call of \<open>step\<close> leaves
  \<open>current_steps\<close> incremented by exactly one, and a call that returns reports
  \<open>terminated = False\<close> and reports \<open>truncated = True\<close> exactly when the incremented
  counter has reached the horizon. Consequently, in any sequence of calls after
  \<open>reset\<close>, from any engine and with any actions, the counter equals the number of calls
  made, and the call number \<open>k + 1\<close>, when it returns, reports \<open>terminated = False\<close> and
  reports \<open>truncated\<close> exactly when \<open>horizon \<le> k + 1\<close>: the flag is first raised by the
  horizon-th call.
\<close>

theorem step_counter_and_truncation:
  assumes "k < length (fst (run_steps (snd (reset e seed options)) acts))"
    and "fst (run_steps (snd (reset e seed options)) acts) ! k
         = Inr (observation, reward, terminated, truncated, nfo)"
  shows "current_steps (snd (step e0 b)) = current_steps e0 + 1
       \<and> (case fst (step e0 b) of
             Inl err \<Rightarrow> True
           | Inr (observation', reward', terminated', truncated', nfo') \<Rightarrow>
               \<not> terminated' \<and> truncated' = (horizon e0 \<le> current_steps e0 + 1))
       \<and> current_steps (snd (run_steps (snd (reset e seed options)) acts))
         = int (length (fst (run_steps (snd (reset e seed options)) acts)))
       \<and> \<not> terminated
       \<and> truncated = (horizon e \<le> int k + 1)"
proof -
  have cs: "current_steps (snd (reset e seed options)) = 0"
    and hz: "horizon (snd (reset e seed options)) = horizon e"
    by (simp_all add: reset_def)
  from run_steps_counter [of "snd (reset e seed options)" acts] cs
  have count: "current_steps (snd (run_steps (snd (reset e seed options)) acts))
               = int (length (fst (run_steps (snd (reset e seed options)) acts)))"
    by simp
  from run_steps_flags [OF assms] cs hz
  have flags: "\<not> terminated \<and> truncated = (horizon e \<le> int k + 1)"
    by simp
  from step_counter [of e0 b] step_flags [of e0 b] count flags show ?thesis
    by blast
qed

lemma run_rover5:
  "run_steps (snd (reset rover5 None None)) walk10
   = ([Inr (3, 0, False, False, []), Inr (2, 0, False, False, []),
       Inr (3, 0, False, False, []), Inr (4, 10, False, False, []),
       Inr (3, 0, False, False, []), Inr (4, 10, False, False, []),
       Inr (4, 10, False, False, []), Inr (4, 10, False, False, []),
       Inr (3, 0, False, False, []), Inr (4, 10, False, True, [])],
      rover5\<lparr>current_steps := 10, position := 4\<rparr>)"
  by (simp add: walk10_def rover5_def reset_def step_eval)

theorem step_counter_and_truncation_witness:
  "9 < length (fst (run_steps (snd (reset rover5 None None)) walk10))
   \<and> fst (run_steps (snd (reset rover5 None None)) walk10) ! 9 = Inr (4, 10, False, True, [])
   \<and> current_steps (snd (step rover3 1)) = 1
   \<and> current_steps (snd (run_steps (snd (reset rover5 None None)) walk10)) = 10
   \<and> horizon rover5 \<le> 10"
proof -
  have len: "9 < length (fst (run_steps (snd (reset rover5 None None)) walk10))"
    by (simp add: run_rover5)
  have nth: "fst (run_steps (snd (reset rover5 None None)) walk10) ! 9
             = Inr (4, 10, False, True, [])"
    by (simp add: run_rover5)
  have cs3: "current_steps rover3 = 0"
    by (simp add: rover3_def)
  from step_counter_and_truncation [OF len nth, of rover3 1] len nth cs3 show ?thesis
    by (simp add: run_rover5)
qed

text \<open>
  On an engine whose tables have at least five rows the calls with action 0 or 1 do
  return, so the statements above are about results that exist.
\<close>

lemma step_wf:
  assumes "wf_engine e" and "a = 0 \<or> a = 1"
  shows "\<exists>observation reward e'.
           step e a = (Inr (observation, reward, False, horizon e \<le> current_steps e + 1, []), e')
           \<and> current_steps e' = current_steps e + 1
           \<and> horizon e' = horizon e
           \<and> wf_engine e'"
proof -
  let ?P = "transition_probabilities e"
  from assms(1) have pos: "0 \<le> position e" "position e < int (length ?P)"
    and len: "5 \<le> length ?P" "length (rewards e) = length ?P"
    and rows: "list_all (\<lambda>row. length row = 2) ?P"
    by (simp_all add: wf_engine_def)
  from pos have row: "getitem ?P (position e) = Some (?P ! nat (position e))"
    by (rule getitem_in_range)
  from pos have "?P ! nat (position e) \<in> set ?P"
    by simp
  with rows have "length (?P ! nat (position e)) = 2"
    by (simp add: list_all_iff)
  with assms(2) have "getitem (?P ! nat (position e)) a = Some (?P ! nat (position e) ! nat a)"
    by (auto simp: getitem_in_range)
  with row have lookup: "getitem2 ?P (position e) a = Some (?P ! nat (position e) ! nat a)"
    by (simp add: getitem2_def)
  show ?thesis
    using lookup pos len rows assms(2)
    by (auto simp: step_def Let_def step_return_def getitem_in_range wf_engine_def)
qed

subsection \<open>The hard-coded right boundary of step\<close>

text \<open>
  C1 fails on the code for fewer than five states. The engine constructed for three
  states starts at position 2, the last state; \<open>step(1)\<close> compares the position with the
  constant 4, moves the rover to position 3, outside the state space, and raises
  IndexError at the reward lookup instead of returning the observation 2.
\<close>

theorem step_right_three_states:
  "MarsRover_init fixed_rng (ones 3) [1, 0, 10] 10 (Some 0) = Inr rover3
   \<and> step rover3 1 = (Inl IndexError, rover3\<lparr>current_steps := 1, position := 3\<rparr>)"
proof
  show "MarsRover_init fixed_rng (ones 3) [1, 0, 10] 10 (Some 0) = Inr rover3"
    by (rule init_rover3)
  show "step rover3 1 = (Inl IndexError, rover3\<lparr>current_steps := 1, position := 3\<rparr>)"
    by (simp add: rover3_def step_eval)
qed

text \<open>
  C4 fails on the code for more than five states, by the same constant. On the engine
  constructed for six states with all probabilities one, three calls \<open>step(1)\<close> from the
  start position 2 give the observations 3, 4 and 4: the third call, from state
  \<open>4 < n - 1 = 5\<close>, does not move the rover to 5.
\<close>

theorem step_right_six_states:
  "MarsRover_init fixed_rng (ones 6) [1, 0, 0, 0, 0, 10] 10 (Some 0) = Inr rover6
   \<and> run_steps rover6 [1, 1, 1]
       = ([Inr (3, 0, False, False, []), Inr (4, 0, False, False, []),
           Inr (4, 0, False, False, [])],
          rover6\<lparr>current_steps := 3, position := 4\<rparr>)"
proof
  show "MarsRover_init fixed_rng (ones 6) [1, 0, 0, 0, 0, 10] 10 (Some 0) = Inr rover6"
    by (rule init_rover6)
  show "run_steps rover6 [1, 1, 1]
          = ([Inr (3, 0, False, False, []), Inr (4, 0, False, False, []),
              Inr (4, 0, False, False, [])],
             rover6\<lparr>current_steps := 3, position := 4\<rparr>)"
    by (simp add: rover6_def step_eval)
qed

subsection \<open>The rows of the transition matrix\<close>

text \<open>
  C3 fails on the code. \<open>get_transition_matrix\<close> writes only the probability of the
  requested move and never the probability of the flipped one, so a row of the tensor
  sums to \<open>P[s, a]\<close>. With every probability one half, the constructor builds the tensor
  below, and the row for state 2 and action 1 sums to one half, not to 1.
\<close>

theorem transition_matrix_halves:
  "map_sum id transition_matrix
     (MarsRover_init fixed_rng (halves 5) [1, 0, 0, 0, 10] 10 (Some 0))
   = Inr [[[1 / 2, 0, 0, 0, 0], [0, 1 / 2, 0, 0, 0]],
          [[1 / 2, 0, 0, 0, 0], [0, 0, 1 / 2, 0, 0]],
          [[0, 1 / 2, 0, 0, 0], [0, 0, 0, 1 / 2, 0]],
          [[0, 0, 1 / 2, 0, 0], [0, 0, 0, 0, 1 / 2]],
          [[0, 0, 0, 1 / 2, 0], [0, 0, 0, 0, 1 / 2]]]
   \<and> map_sum id (\<lambda>e. row_sum (transition_matrix e) 2 1)
       (MarsRover_init fixed_rng (halves 5) [1, 0, 0, 0, 10] 10 (Some 0))
     = Inr (Some (1 / 2))"
  by (simp add: eval_defs row_sum_def)

end
